theory Spec2Isabelle
  imports Complex_Main "HOL-Library.Sublist" "HOL-Library.Multiset"
begin

section \<open>Strings of the chat backend\<close>

text \<open>
  A JavaScript string is a sequence of code units. The embedding uses \<^typ>\<open>string\<close>, so a
  character is a code unit below 256: ASCII and the Latin-1 supplement. On this range
  \<open>toLowerCase\<close> acts unit by unit, and the white space of \<open>\s\<close> and of \<open>trim\<close> is the same
  set: tab, line feed, vertical tab, form feed, carriage return, space and no-break space.
\<close>

definition lowerChar :: "char \<Rightarrow> char" where
  "lowerChar c =
     (let n = (of_char c :: nat)
      in if (65 \<le> n \<and> n \<le> 90) \<or> (192 \<le> n \<and> n \<le> 222 \<and> n \<noteq> 215)
         then char_of (n + 32) else c)"

definition toLowerCase :: "string \<Rightarrow> string" where
  "toLowerCase s = map lowerChar s"

definition isSpace :: "char \<Rightarrow> bool" where
  "isSpace c = (let n = (of_char c :: nat) in (9 \<le> n \<and> n \<le> 13) \<or> n = 32 \<or> n = 160)"

text \<open>The characters the pattern \<open>[^a-z0-9\s]\<close> does not match, that is, the ones kept.\<close>

definition keptChar :: "char \<Rightarrow> bool" where
  "keptChar c =
     (let n = (of_char c :: nat)
      in (97 \<le> n \<and> n \<le> 122) \<or> (48 \<le> n \<and> n \<le> 57) \<or> isSpace c)"

definition trim :: "string \<Rightarrow> string" where
  "trim s = rev (dropWhile isSpace (rev (dropWhile isSpace s)))"

text \<open>\<open>normalizeText\<close>: \<open>text.toLowerCase().replace(/[^a-z0-9\s]/g, '').trim()\<close>.\<close>

definition normalizeText :: "string \<Rightarrow> string" where
  "normalizeText text = trim (filter keptChar (toLowerCase text))"

text \<open>
  \<open>s.split(/\s+/)\<close>: the pieces between maximal runs of white space. A run at the start or
  at the end leaves an empty piece there, and the empty string splits into one empty piece.
\<close>

function split_ws :: "string \<Rightarrow> string list" where
  "split_ws s =
     (let w = takeWhile (\<lambda>c. \<not> isSpace c) s;
          r = dropWhile (\<lambda>c. \<not> isSpace c) s
      in if r = [] then [w] else w # split_ws (dropWhile isSpace r))"
  by pat_completeness auto
termination
proof (relation "measure length")
  fix s :: string and w r :: string
  assume r: "r = dropWhile (\<lambda>c. \<not> isSpace c) s" and ne: "r \<noteq> []"
  from ne obtain c cs where rc: "r = c # cs" by (cases r) auto
  have "isSpace c" using r rc hd_dropWhile [of "\<lambda>c. \<not> isSpace c" s] by force
  then have "length (dropWhile isSpace r) \<le> length cs"
    by (simp add: rc length_dropWhile_le)
  also have "length cs < length r" by (simp add: rc)
  also have "length r \<le> length s" by (simp add: r length_dropWhile_le)
  finally show "(dropWhile isSpace r, s) \<in> measure length" by simp
qed simp

declare split_ws.simps [simp del]

text \<open>\<open>s.includes(w)\<close>: \<open>w\<close> occurs in \<open>s\<close> as a contiguous piece.\<close>

fun includes_str :: "string \<Rightarrow> string \<Rightarrow> bool" where
  "includes_str [] w = (w = [])"
| "includes_str (c # cs) w = (prefix w (c # cs) \<or> includes_str cs w)"

section \<open>Stored documents\<close>

text \<open>
  The two collections of the document store. A turn of a conversation has a sender, which
  the schema types as a string and documents as \<open>'user'\<close> or \<open>'ai'\<close>, and a content; a
  conversation holds the turns of one user. A FAQ entry has a title and a content. The
  store's bookkeeping fields (identifiers, creation and update times) are read by no
  function of the routes and are left out.
\<close>

record message =
  sender :: string
  content :: string

record chat =
  userId :: string
  messages :: "message list"

record faq =
  title :: string
  content :: string

section \<open>The relevance scorer\<close>

record scored =
  faq :: faq
  score :: int

definition queryWords :: "string \<Rightarrow> string list" where
  "queryWords query = filter (\<lambda>word. length word > 2) (split_ws (normalizeText query))"

text \<open>The body of \<open>queryWords.forEach\<close>, one step on the running score.\<close>

definition wordStep :: "string \<Rightarrow> string \<Rightarrow> string \<Rightarrow> int \<Rightarrow> int" where
  "wordStep normalizedTitle normalizedContent word sc =
     (if includes_str normalizedTitle word then sc + 2
      else if includes_str normalizedContent word then sc + 1
      else sc)"

definition scoreFaq :: "string \<Rightarrow> faq \<Rightarrow> int" where
  "scoreFaq query f =
     (let normalizedQuery = normalizeText query;
          normalizedTitle = normalizeText (title f);
          normalizedContent = normalizeText (content f);
          s0 = fold (wordStep normalizedTitle normalizedContent) (queryWords query) 0;
          s1 = (if includes_str normalizedTitle normalizedQuery \<and> length normalizedQuery > 5
                then s0 + 5 else s0);
          s2 = (if includes_str normalizedContent normalizedQuery \<and> length normalizedQuery > 5
                then s1 + 2 else s1);
          s3 = (if includes_str (toLowerCase (title f)) (toLowerCase query) then s2 + 3 else s2);
          s4 = (if includes_str (toLowerCase (content f)) (toLowerCase query) then s3 + 1 else s3)
      in s4)"

text \<open>
  \<open>Array.prototype.sort\<close> with a comparator is a stable sort: an element stays in front of
  the later elements it compares equal to. Insertion from the right gives that order.
\<close>

fun insert_cmp :: "('a \<Rightarrow> 'a \<Rightarrow> int) \<Rightarrow> 'a \<Rightarrow> 'a list \<Rightarrow> 'a list" where
  "insert_cmp cmp x [] = [x]"
| "insert_cmp cmp x (y # ys) =
     (if cmp x y \<le> 0 then x # y # ys else y # insert_cmp cmp x ys)"

definition sort_cmp :: "('a \<Rightarrow> 'a \<Rightarrow> int) \<Rightarrow> 'a list \<Rightarrow> 'a list" where
  "sort_cmp cmp xs = foldr (insert_cmp cmp) xs []"

definition defaultMinScore :: real where
  "defaultMinScore = 3 / 10"

definition findRelevantFaqs :: "string \<Rightarrow> faq list \<Rightarrow> real \<Rightarrow> faq list" where
  "findRelevantFaqs query faqs minScore =
     (let scoredFaqs = map (\<lambda>f. \<lparr>faq = f, score = scoreFaq query f\<rparr>) faqs;
          relevantFaqs =
            map faq (sort_cmp (\<lambda>a b. score b - score a)
              (filter (\<lambda>item. real_of_int (score item) \<ge> minScore) scoredFaqs))
      in take 3 relevantFaqs)"

section \<open>Prompt assembly\<close>

text \<open>\<open>arr.slice(-n)\<close>: the last \<open>n\<close> elements, all of them when there are fewer.\<close>

definition slice_last :: "nat \<Rightarrow> 'a list \<Rightarrow> 'a list" where
  "slice_last n xs = drop (length xs - n) xs"

text \<open>The turns kept from \<open>chat.messages\<close>, before they are mapped to roles.\<close>

definition trimHistory :: "message list \<Rightarrow> message list" where
  "trimHistory msgs =
     (let currentChatHistory = filter (\<lambda>m. sender m \<in> set [''user'', ''ai'']) msgs
      in if length currentChatHistory > 0 \<and> sender (last currentChatHistory) = ''user''
         then slice_last 6 currentChatHistory
         else slice_last 5 currentChatHistory)"

record part =
  part_text :: string

record gemini_message =
  role :: string
  parts :: "part list"

definition toGemini :: "message \<Rightarrow> gemini_message" where
  "toGemini msg =
     \<lparr>role = (if sender msg = ''user'' then ''user'' else ''model''),
      parts = [\<lparr>part_text = message.content msg\<rparr>]\<rparr>"

text \<open>\<open>chatHistory\<close>: empty when the user has no conversation yet.\<close>

definition chatHistoryOf :: "chat option \<Rightarrow> gemini_message list" where
  "chatHistoryOf c =
     (case c of None \<Rightarrow> [] | Some ch \<Rightarrow> map toGemini (trimHistory (messages ch)))"

text \<open>\<open>arr.join(sep)\<close> on strings.\<close>

fun join :: "string \<Rightarrow> string list \<Rightarrow> string" where
  "join sep [] = []"
| "join sep [x] = x"
| "join sep (x # y # ys) = x @ sep @ join sep (y # ys)"

definition formatFaq :: "faq \<Rightarrow> string" where
  "formatFaq f = ''Q: '' @ title f @ ''\<newline>A: '' @ content f"

definition faqSeparator :: string where
  "faqSeparator = ''\<newline>\<newline>---\<newline>\<newline>''"

definition faqContextForGemini :: "faq list \<Rightarrow> string" where
  "faqContextForGemini relevantFaqs =
     (if length relevantFaqs > 0 then join faqSeparator (map formatFaq relevantFaqs) else [])"

text \<open>
  The fixed text of the template literal \<open>systemInstruction\<close>, line by line; every line
  ends in a line feed, and the eight blanks that indent the last line come before the
  optional FAQ block.
\<close>

definition systemInstructionLines :: "string list" where
  \<open>systemInstructionLines =
    [''You are Dhanista, a helpful and knowledgeable AI assistant. Your primary goal is to answer user questions accurately and comprehensively.'',
     '''',
     ''        **Instructions:**'',
     ''        1.  **Prioritize the provided relevant FAQs.** If the user's question can be answered by the information in "Relevant FAQs:", use that information directly and comprehensively.'',
     ''        2.  If the "Relevant FAQs:" section is empty or does not sufficiently answer the question, attempt to answer using your general knowledge.'',
     ''        3.  **Crucially:** If you cannot find relevant information in the FAQs AND your general knowledge is insufficient, *do not say you don't have enough information*. Instead, acknowledge the query and politely suggest rephrasing or mention that the specific information might not be available in your current knowledge base. For example: "I don't have specific information on that topic in my current knowledge base. Could you please rephrase your question or ask about something else?" or "The information you're looking for might not be in my FAQs. Can I help with anything else?"'',
     ''        4.  Maintain a friendly and professional tone.'',
     '''']\<close>

definition systemInstructionHead :: string where
  "systemInstructionHead =
     concat (map (\<lambda>l. l @ ''\<newline>'') systemInstructionLines) @ ''        ''"

text \<open>The FAQ block is added when the context string is truthy, that is, not empty.\<close>

definition systemInstruction :: "string \<Rightarrow> string" where
  "systemInstruction faqContext =
     systemInstructionHead @
     (if faqContext \<noteq> [] then ''**Relevant FAQs:**\<newline>'' @ faqContext @ ''\<newline>\<newline>''
      else [])"

record generation_config =
  temperature :: rat
  maxOutputTokens :: nat

record payload =
  contents :: "gemini_message list"
  generationConfig :: generation_config
  safetySettings :: "(string \<times> string) list"

definition buildPayload :: "string \<Rightarrow> string \<Rightarrow> gemini_message list \<Rightarrow> payload" where
  "buildPayload message faqContext chatHistory =
     \<lparr>contents =
        [\<lparr>role = ''user'', parts = [\<lparr>part_text = systemInstruction faqContext\<rparr>]\<rparr>]
        @ chatHistory
        @ [\<lparr>role = ''user'', parts = [\<lparr>part_text = message\<rparr>]\<rparr>],
      generationConfig = \<lparr>temperature = 1 / 2, maxOutputTokens = 500\<rparr>,
      safetySettings =
        [(''HARM_CATEGORY_HARASSMENT'', ''BLOCK_NONE''),
         (''HARM_CATEGORY_HATE_SPEECH'', ''BLOCK_NONE''),
         (''HARM_CATEGORY_SEXUALLY_EXPLICIT'', ''BLOCK_NONE''),
         (''HARM_CATEGORY_DANGEROUS_CONTENT'', ''BLOCK_NONE'')]\<rparr>"

section \<open>Values of the upstream response\<close>

text \<open>
  The body of the upstream answer is whatever JSON the service sent (or a string when it
  was not JSON), so it is modelled as an untyped value, together with \<open>undefined\<close> for what
  a property read finds absent. A number node carries the value of the number, an object
  node its properties, each name once.
\<close>

datatype jsval =
    JUndefined
  | JNull
  | JBool bool
  | JNum rat
  | JStr string
  | JArr "jsval list"
  | JObj "(string \<times> jsval) list"

datatype error = TypeError | ValidationError | StoreError | UpstreamError

fun truthy :: "jsval \<Rightarrow> bool" where
  "truthy JUndefined = False"
| "truthy JNull = False"
| "truthy (JBool b) = b"
| "truthy (JNum n) = (n \<noteq> 0)"
| "truthy (JStr s) = (s \<noteq> [])"
| "truthy (JArr xs) = True"
| "truthy (JObj kvs) = True"

text \<open>
  \<open>v.k\<close> for the property names the route reads (\<open>candidates\<close>, \<open>content\<close>, \<open>parts\<close>,
  \<open>text\<close>, \<open>length\<close>): reading a property of \<open>null\<close> or \<open>undefined\<close> throws a TypeError,
  an object gives its own property or \<open>undefined\<close>, arrays and strings have a \<open>length\<close>.
\<close>

fun getProp :: "jsval \<Rightarrow> string \<Rightarrow> error + jsval" where
  "getProp JUndefined k = Inl TypeError"
| "getProp JNull k = Inl TypeError"
| "getProp (JBool b) k = Inr JUndefined"
| "getProp (JNum n) k = Inr JUndefined"
| "getProp (JStr s) k = Inr (if k = ''length'' then JNum (of_nat (length s)) else JUndefined)"
| "getProp (JArr xs) k = Inr (if k = ''length'' then JNum (of_nat (length xs)) else JUndefined)"
| "getProp (JObj kvs) k = Inr (case map_of kvs k of None \<Rightarrow> JUndefined | Some v \<Rightarrow> v)"

text \<open>\<open>v[0]\<close>.\<close>

fun getFirst :: "jsval \<Rightarrow> error + jsval" where
  "getFirst JUndefined = Inl TypeError"
| "getFirst JNull = Inl TypeError"
| "getFirst (JBool b) = Inr JUndefined"
| "getFirst (JNum n) = Inr JUndefined"
| "getFirst (JStr s) = Inr (case s of [] \<Rightarrow> JUndefined | c # cs \<Rightarrow> JStr [c])"
| "getFirst (JArr xs) = Inr (case xs of [] \<Rightarrow> JUndefined | x # ys \<Rightarrow> x)"
| "getFirst (JObj kvs) = Inr (case map_of kvs ''0'' of None \<Rightarrow> JUndefined | Some v \<Rightarrow> v)"

text \<open>
  \<open>v > 0\<close>, the comparison after conversion to a number: \<open>undefined\<close> becomes NaN, \<open>null\<close>
  becomes 0, a boolean 0 or 1. An array is first joined into a string: the empty array
  reads as 0, a one-element array as its element does (\<open>null\<close> and \<open>undefined\<close> as the
  empty string, booleans and objects as words that are no number), a longer array
  contains a comma and is no number. How a string reads as a number is the language's
  numeric-literal grammar; the comparison of a string with zero is the parameter \<open>pos\<close>.
\<close>

fun gtZero :: "(string \<Rightarrow> bool) \<Rightarrow> jsval \<Rightarrow> bool" where
  "gtZero pos JUndefined = False"
| "gtZero pos JNull = False"
| "gtZero pos (JBool b) = b"
| "gtZero pos (JNum n) = (n > 0)"
| "gtZero pos (JStr s) = pos s"
| "gtZero pos (JArr []) = False"
| "gtZero pos (JArr [x]) =
     (case x of
        JUndefined \<Rightarrow> False
      | JNull \<Rightarrow> False
      | JBool b \<Rightarrow> False
      | JObj kvs \<Rightarrow> False
      | _ \<Rightarrow> gtZero pos x)"
| "gtZero pos (JArr (x # y # zs)) = False"
| "gtZero pos (JObj kvs) = False"

section \<open>Reply extraction\<close>

definition fallbackReply :: string where
  \<open>fallbackReply =
     ''I received an empty or unclear response from the AI. Please try again or ask your question in a different way.''\<close>

text \<open>
  The guard of the route and the read of \<open>parts[0].text\<close>. The conjunction is evaluated
  from the left and stops at the first falsy operand; each property read may throw. The
  string \<open>reply\<close> is initialised with is overwritten on both branches and does not appear.
\<close>

definition extractReply :: "(string \<Rightarrow> bool) \<Rightarrow> jsval \<Rightarrow> error + jsval" where
  "extractReply pos data =
     (if \<not> truthy data then Inr (JStr fallbackReply) else
      case getProp data ''candidates'' of Inl e \<Rightarrow> Inl e | Inr candidates \<Rightarrow>
      if \<not> truthy candidates then Inr (JStr fallbackReply) else
      case getProp candidates ''length'' of Inl e \<Rightarrow> Inl e | Inr n \<Rightarrow>
      if \<not> gtZero pos n then Inr (JStr fallbackReply) else
      case getFirst candidates of Inl e \<Rightarrow> Inl e | Inr candidate \<Rightarrow>
      case getProp candidate ''content'' of Inl e \<Rightarrow> Inl e | Inr cont \<Rightarrow>
      if \<not> truthy cont then Inr (JStr fallbackReply) else
      case getProp cont ''parts'' of Inl e \<Rightarrow> Inl e | Inr ps \<Rightarrow>
      if \<not> truthy ps then Inr (JStr fallbackReply) else
      case getProp ps ''length'' of Inl e \<Rightarrow> Inl e | Inr m \<Rightarrow>
      if \<not> gtZero pos m then Inr (JStr fallbackReply) else
      case getFirst ps of Inl e \<Rightarrow> Inl e | Inr p \<Rightarrow>
      getProp p ''text'')"

section \<open>The chat route\<close>

record store =
  faqStore :: "faq list"
  chatStore :: "string \<Rightarrow> chat option"

text \<open>
  What the route does not decide itself: whether each store operation goes through, what
  the upstream service answers to a payload (\<open>None\<close> when the call throws), how a string
  compares with zero, and the string the store casts a value that is not a string to when
  it is saved under a path of type String (\<open>None\<close> when the store rejects it).
\<close>

record env =
  faqFindOk :: bool
  chatFindOk :: bool
  chatSaveOk :: bool
  upstream :: "payload \<Rightarrow> jsval option"
  strPositive :: "string \<Rightarrow> bool"
  castString :: "jsval \<Rightarrow> string option"

text \<open>
  The content the store keeps for the assistant turn. The path is required: \<open>undefined\<close>,
  \<open>null\<close> and the empty string fail validation.
\<close>

definition storedContent :: "env \<Rightarrow> jsval \<Rightarrow> error + string" where
  "storedContent ev reply =
     (case reply of
        JUndefined \<Rightarrow> Inl ValidationError
      | JNull \<Rightarrow> Inl ValidationError
      | JStr s \<Rightarrow> (if s = [] then Inl ValidationError else Inr s)
      | _ \<Rightarrow>
          (case castString ev reply of
             None \<Rightarrow> Inl ValidationError
           | Some s \<Rightarrow> (if s = [] then Inl ValidationError else Inr s)))"

text \<open>The body of the \<open>try\<close> block: the new store and the reply, or the error thrown.\<close>

definition chatExchange :: "env \<Rightarrow> store \<Rightarrow> string \<Rightarrow> string \<Rightarrow> error + (store \<times> jsval)" where
  "chatExchange ev st uid message =
     (if \<not> faqFindOk ev then Inl StoreError else
      let relevantFaqs = findRelevantFaqs message (faqStore st) defaultMinScore;
          faqContext = faqContextForGemini relevantFaqs
      in
      if \<not> chatFindOk ev then Inl StoreError else
      let found = chatStore st uid;
          chatHistory = chatHistoryOf found;
          pl = buildPayload message faqContext chatHistory
      in
      case upstream ev pl of None \<Rightarrow> Inl UpstreamError | Some data \<Rightarrow>
      case extractReply (strPositive ev) data of Inl e \<Rightarrow> Inl e | Inr reply \<Rightarrow>
      let ch = (case found of None \<Rightarrow> \<lparr>userId = uid, messages = []\<rparr> | Some c \<Rightarrow> c)
      in
      case storedContent ev reply of Inl e \<Rightarrow> Inl e | Inr text \<Rightarrow>
      let ch1 = ch\<lparr>messages := messages ch @ [\<lparr>sender = ''user'', message.content = message\<rparr>]\<rparr>;
          ch2 = ch1\<lparr>messages := messages ch1 @ [\<lparr>sender = ''ai'', message.content = text\<rparr>]\<rparr>
      in
      if \<not> chatSaveOk ev then Inl StoreError
      else Inr (st\<lparr>chatStore := (chatStore st)(uid \<mapsto> ch2)\<rparr>, reply))"

text \<open>
  The answers of the route: status 400 when a field is missing or empty, status 200 with
  the reply, or the \<open>catch\<close> block, which answers status 500 with a message it picks from
  the error.
\<close>

datatype outcome = BadRequest | Replied jsval | Failed error

definition postChat :: "env \<Rightarrow> store \<Rightarrow> string option \<Rightarrow> string option \<Rightarrow> store \<times> outcome" where
  "postChat ev st uidField messageField =
     (case (uidField, messageField) of
        (Some uid, Some message) \<Rightarrow>
          if uid = [] \<or> message = [] then (st, BadRequest)
          else (case chatExchange ev st uid message of
                  Inl e \<Rightarrow> (st, Failed e)
                | Inr (st', reply) \<Rightarrow> (st', Replied reply))
      | _ \<Rightarrow> (st, BadRequest))"

section \<open>The file upload route\<close>

record uploaded_file =
  originalname :: string
  mimetype :: string
  buffer :: string
  file_size :: nat

text \<open>
  The runtime's part in the upload: the PDF text extractor (the text, or the message of
  the error it throws), the decoding of a byte buffer as UTF-8, and whether the save goes
  through.
\<close>

record upload_env =
  pdf :: "string \<Rightarrow> string + string"
  toString_utf8 :: "string \<Rightarrow> string"
  faqSaveOk :: bool

fun showNat :: "nat \<Rightarrow> string" where
  "showNat n =
     (if n < 10 then [char_of (48 + n)]
      else showNat (n div 10) @ [char_of (48 + n mod 10)])"

declare showNat.simps [simp del]

definition extractContent :: "upload_env \<Rightarrow> uploaded_file \<Rightarrow> string" where
  "extractContent ev uploadedFile =
     (if mimetype uploadedFile = ''application/pdf'' then
        (case pdf ev (buffer uploadedFile) of
           Inr text \<Rightarrow> text
         | Inl msg \<Rightarrow> ''[Failed to extract text from PDF: '' @ msg @ '']'')
      else if prefix ''text/'' (mimetype uploadedFile) then
        toString_utf8 ev (buffer uploadedFile)
      else
        ''[File uploaded: '' @ originalname uploadedFile @ '', Type: '' @ mimetype uploadedFile
          @ '', Size: '' @ showNat (file_size uploadedFile) @ '' bytes]'')"

datatype upload_outcome = UploadBadRequest | Created faq | UploadFailed error

definition uploadFileFaq ::
  "upload_env \<Rightarrow> store \<Rightarrow> string option \<Rightarrow> uploaded_file option \<Rightarrow> store \<times> upload_outcome" where
  "uploadFileFaq ev st titleField fileField =
     (case (titleField, fileField) of
        (Some t, Some uploadedFile) \<Rightarrow>
          if t = [] then (st, UploadBadRequest)
          else
            let extractedContent = extractContent ev uploadedFile;
                newFAQ = \<lparr>title = t, content = extractedContent\<rparr>
            in if extractedContent = [] then (st, UploadFailed ValidationError)
               else if \<not> faqSaveOk ev then (st, UploadFailed StoreError)
               else (st\<lparr>faqStore := faqStore st @ [newFAQ]\<rparr>, Created newFAQ)
      | _ \<Rightarrow> (st, UploadBadRequest))"

section \<open>The senders of stored turns\<close>

text \<open>Every stored turn has one of the two senders the chat route writes.\<close>

definition validSenders :: "store \<Rightarrow> bool" where
  "validSenders st =
     (\<forall>u c. chatStore st u = Some c \<longrightarrow>
        (\<forall>m\<in>set (messages c). sender m = ''user'' \<or> sender m = ''ai''))"

section \<open>The score as the specification words it\<close>

text \<open>
  Normalization lowercases, removes every character outside \<open>[a-z0-9\s]\<close> and trims; the
  character class is written out as the characters themselves.
\<close>

definition specKept :: "char \<Rightarrow> bool" where
  "specKept c = (c \<in> set ''abcdefghijklmnopqrstuvwxyz0123456789'' \<or> isSpace c)"

definition specNormalize :: "string \<Rightarrow> string" where
  "specNormalize s = trim (filter specKept (toLowerCase s))"

definition specWords :: "string \<Rightarrow> string list" where
  "specWords query = filter (\<lambda>w. length w > 2) (split_ws (specNormalize query))"

text \<open>The four checks on the whole query: two on the normalized texts, two on the raw ones.\<close>

definition substringScore :: "string \<Rightarrow> faq \<Rightarrow> int" where
  "substringScore query f =
     (if length (specNormalize query) > 5 \<and> sublist (specNormalize query) (specNormalize (title f))
      then 5 else 0)
   + (if length (specNormalize query) > 5 \<and> sublist (specNormalize query) (specNormalize (content f))
      then 2 else 0)
   + (if sublist (toLowerCase query) (toLowerCase (title f)) then 3 else 0)
   + (if sublist (toLowerCase query) (toLowerCase (content f)) then 1 else 0)"

text \<open>Two points for a word found in the title, one for a word found in the content only.\<close>

definition keywordScore :: "string \<Rightarrow> faq \<Rightarrow> int" where
  "keywordScore query f =
     (\<Sum>w\<leftarrow>specWords query. if sublist w (specNormalize (title f)) then 2 else 0)
   + (\<Sum>w\<leftarrow>specWords query.
        if sublist w (specNormalize (content f)) \<and> \<not> sublist w (specNormalize (title f))
        then 1 else 0)"

definition specScore :: "string \<Rightarrow> faq \<Rightarrow> int" where
  "specScore query f = keywordScore query f + substringScore query f"

text \<open>No word of the normalized query is longer than \<open>n\<close>.\<close>

definition noWordLongerThan :: "nat \<Rightarrow> string \<Rightarrow> bool" where
  "noWordLongerThan n query = list_all (\<lambda>w. length w \<le> n) (split_ws (normalizeText query))"

section \<open>Facts about the string functions and the sort\<close>

lemma includes_str_sublist: "includes_str s w = sublist w s"
  by (induction s) (simp_all add: sublist_Cons_right)

lemma includes_str_Nil [simp]: "includes_str s []"
  by (simp add: includes_str_sublist)

lemma insert_cmp_insort:
  "insert_cmp (\<lambda>a b. k b - k a) x xs = insort_key (\<lambda>i. - k i) x xs"
  by (induction xs) auto

lemma sort_cmp_sort_key:
  "sort_cmp (\<lambda>a b. k b - k a) xs = sort_key (\<lambda>i. - (k i :: int)) xs"
  by (induction xs) (simp_all add: sort_cmp_def insert_cmp_insort)

lemma insort_key_map:
  "insort_key g (h x) (map h xs) = map h (insort_key (\<lambda>a. g (h a)) x xs)"
  by (induction xs) auto

lemma sort_key_map:
  "sort_key g (map h xs) = map h (sort_key (\<lambda>a. g (h a)) xs)"
  by (induction xs) (simp_all add: insort_key_map)

lemma findRelevantFaqs_sort_key:
  "findRelevantFaqs query faqs minScore =
     take 3 (sort_key (\<lambda>f. - scoreFaq query f)
       (filter (\<lambda>f. minScore \<le> real_of_int (scoreFaq query f)) faqs))"
  by (simp add: findRelevantFaqs_def sort_cmp_sort_key filter_map sort_key_map comp_def)

lemma normalizeText_Nil [simp]: "normalizeText [] = []"
  by (simp add: normalizeText_def trim_def toLowerCase_def)

lemma split_ws_Nil [simp]: "split_ws [] = [[]]"
  by (simp add: split_ws.simps)

lemma queryWords_Nil [simp]: "queryWords [] = []"
  by (simp add: queryWords_def)

lemma fold_wordStep:
  "fold (wordStep t c) ws a =
     a + (\<Sum>w\<leftarrow>ws. if sublist w t then 2 else 0)
       + (\<Sum>w\<leftarrow>ws. if sublist w c \<and> \<not> sublist w t then 1 else 0)"
  by (induction ws arbitrary: a) (simp_all add: wordStep_def includes_str_sublist)

lemma keptChar_spec: "keptChar c = specKept c"
  by (cases c) (simp add: keptChar_def specKept_def isSpace_def)

lemma normalizeText_spec: "normalizeText s = specNormalize s"
  by (simp add: normalizeText_def specNormalize_def keptChar_spec cong: filter_cong)

lemma queryWords_spec: "queryWords query = specWords query"
  by (simp add: queryWords_def specWords_def normalizeText_spec)

lemma scoreFaq_specScore: "scoreFaq query f = specScore query f"
  by (simp add: scoreFaq_def specScore_def keywordScore_def substringScore_def Let_def
      fold_wordStep includes_str_sublist normalizeText_spec queryWords_spec)

lemma queryWords_short:
  assumes "noWordLongerThan 2 query"
  shows "queryWords query = []"
proof -
  have "\<forall>w\<in>set (split_ws (normalizeText query)). \<not> 2 < length w"
    using assms by (auto simp: noWordLongerThan_def list_all_iff)
  then show ?thesis
    by (simp add: queryWords_def filter_empty_conv)
qed

section \<open>Facts about the prompt assembly and the routes\<close>

lemma slice_last_suffix: "suffix (slice_last n xs) xs"
  by (simp add: slice_last_def suffix_drop)

lemma length_slice_last: "length (slice_last n xs) = min n (length xs)"
  by (simp add: slice_last_def)

lemma trimHistory_filtered:
  "trimHistory msgs =
     (let h = filter (\<lambda>m. sender m = ''user'' \<or> sender m = ''ai'') msgs
      in slice_last (if h \<noteq> [] \<and> sender (last h) = ''user'' then 6 else 5) h)"
  by (simp add: trimHistory_def Let_def)

lemma trimHistory_valid:
  assumes "\<forall>m\<in>set msgs. sender m = ''user'' \<or> sender m = ''ai''"
  shows "trimHistory msgs =
     slice_last (if msgs \<noteq> [] \<and> sender (last msgs) = ''user'' then 6 else 5) msgs"
proof -
  have "filter (\<lambda>m. sender m = ''user'' \<or> sender m = ''ai'') msgs = msgs"
    using assms by (simp add: filter_id_conv)
  then show ?thesis by (simp add: trimHistory_filtered Let_def)
qed

lemma trimHistory_by_senders:
  assumes v: "\<forall>m\<in>set msgs. sender m = ''user'' \<or> sender m = ''ai''"
    and s: "map sender msgs = ss" and ne: "ss \<noteq> []"
  shows "trimHistory msgs = slice_last (if last ss = ''user'' then 6 else 5) msgs"
proof -
  from s ne have m: "msgs \<noteq> []" by auto
  then have "sender (last msgs) = last ss"
    using s by (simp add: last_map [symmetric])
  with m show ?thesis by (simp add: trimHistory_valid [OF v])
qed

lemma join_Cons: "join sep (x # xs) = x @ concat (map (\<lambda>y. sep @ y) xs)"
  by (induction xs arbitrary: x) simp_all

lemma formatFaq_nonempty: "formatFaq f \<noteq> []"
  by (simp add: formatFaq_def)

lemma faqContext_Nil: "faqContextForGemini [] = []"
  by (simp add: faqContextForGemini_def)

lemma faqContext_Cons:
  "faqContextForGemini (f # fs) = formatFaq f @ concat (map (\<lambda>g. faqSeparator @ formatFaq g) fs)"
  by (simp add: faqContextForGemini_def join_Cons comp_def)

lemma faqContext_nonempty: "faqContextForGemini (f # fs) \<noteq> []"
  by (simp add: faqContext_Cons formatFaq_nonempty)

lemma extractReply_missing_candidates:
  assumes "map_of kvs ''candidates'' = None"
  shows "extractReply pos (JObj kvs) = Inr (JStr fallbackReply)"
  using assms by (simp add: extractReply_def)

lemma extractReply_text:
  "extractReply pos
     (JObj [(''candidates'',
        JArr (JObj [(''content'', JObj [(''parts'', JArr (JObj [(''text'', t)] # ps))])] # cs))])
   = Inr t"
  by (simp add: extractReply_def)

lemma storedContent_JStr: "storedContent ev (JStr s) = Inr text \<Longrightarrow> text = s"
  by (simp add: storedContent_def split: if_splits)

lemma chatExchange_success:
  assumes "chatExchange ev st uid message = Inr (st', reply)"
  shows "\<exists>text. storedContent ev reply = Inr text
    \<and> st' = st\<lparr>chatStore := (chatStore st)(uid \<mapsto>
         (case chatStore st uid of None \<Rightarrow> \<lparr>userId = uid, messages = []\<rparr> | Some c \<Rightarrow> c)
           \<lparr>messages :=
              (case chatStore st uid of None \<Rightarrow> [] | Some c \<Rightarrow> messages c)
              @ [\<lparr>sender = ''user'', message.content = message\<rparr>,
                 \<lparr>sender = ''ai'', message.content = text\<rparr>]\<rparr>)\<rparr>"
  using assms
  by (auto simp: chatExchange_def Let_def split: if_splits option.splits sum.splits)

lemma postChat_Replied:
  assumes "postChat ev st uidField messageField = (st', Replied reply)"
  shows "\<exists>uid message. uidField = Some uid \<and> messageField = Some message
     \<and> uid \<noteq> [] \<and> message \<noteq> []
     \<and> chatExchange ev st uid message = Inr (st', reply)"
  using assms
  by (auto simp: postChat_def split: option.splits if_splits sum.splits)

lemma postChat_unchanged:
  assumes "postChat ev st uidField messageField = (st', out)"
  shows "(\<exists>r. out = Replied r) \<or> st' = st"
  using assms
  by (auto simp: postChat_def split: option.splits if_splits sum.splits)

lemma postChat_keeps_senders:
  assumes inv: "validSenders st"
    and p: "postChat ev st uidField messageField = (st', out)"
  shows "validSenders st'"
proof (cases "\<exists>r. out = Replied r")
  case False
  with postChat_unchanged [OF p] inv show ?thesis by simp
next
  case True
  then obtain r where "out = Replied r" by blast
  with p postChat_Replied obtain uid message where
    x: "chatExchange ev st uid message = Inr (st', r)" by blast
  from chatExchange_success [OF x] obtain kept where
    s: "st' = st\<lparr>chatStore := (chatStore st)(uid \<mapsto>
         (case chatStore st uid of None \<Rightarrow> \<lparr>userId = uid, messages = []\<rparr> | Some c \<Rightarrow> c)
           \<lparr>messages :=
              (case chatStore st uid of None \<Rightarrow> [] | Some c \<Rightarrow> messages c)
              @ [\<lparr>sender = ''user'', message.content = message\<rparr>,
                 \<lparr>sender = ''ai'', message.content = kept\<rparr>]\<rparr>)\<rparr>"
    by blast
  show ?thesis
    unfolding validSenders_def
  proof (intro allI impI)
    fix u c
    assume c: "chatStore st' u = Some c"
    show "\<forall>m\<in>set (messages c). sender m = ''user'' \<or> sender m = ''ai''"
    proof (cases "u = uid")
      case False
      with c s have "chatStore st u = Some c" by simp
      with inv show ?thesis by (simp add: validSenders_def)
    next
      case True
      show ?thesis
      proof (cases "chatStore st uid")
        case None
        with c s True show ?thesis by auto
      next
        case (Some d)
        with inv have "\<forall>m\<in>set (messages d). sender m = ''user'' \<or> sender m = ''ai''"
          by (simp add: validSenders_def)
        with c s True Some show ?thesis by auto
      qed
    qed
  qed
qed

lemma postChat_null_candidate:
  assumes "faqFindOk ev" "chatFindOk ev" "uid \<noteq> []" "message \<noteq> []"
    and "\<And>p. upstream ev p = Some (JObj [(''candidates'', JArr [JNull])])"
  shows "postChat ev st (Some uid) (Some message) = (st, Failed TypeError)"
  using assms
  by (simp add: postChat_def chatExchange_def extractReply_def Let_def)

lemma postChat_part_without_text:
  assumes "faqFindOk ev" "chatFindOk ev" "uid \<noteq> []" "message \<noteq> []"
    and "\<And>p. upstream ev p =
      Some (JObj [(''candidates'', JArr [JObj [(''content'', JObj [(''parts'', JArr [JObj []])])]])])"
  shows "postChat ev st (Some uid) (Some message) = (st, Failed ValidationError)"
  using assms
  by (simp add: postChat_def chatExchange_def extractReply_def storedContent_def Let_def)

lemma chatExchange_upstream_throws:
  assumes "faqFindOk ev" "chatFindOk ev"
    and "upstream ev
          (buildPayload message
             (faqContextForGemini (findRelevantFaqs message (faqStore st) defaultMinScore))
             (chatHistoryOf (chatStore st uid))) = None"
  shows "chatExchange ev st uid message = Inl UpstreamError"
  using assms by (simp add: chatExchange_def Let_def)

section \<open>Properties of the relevance scorer\<close>

text \<open>
  Claim C1, as amended. For every query, corpus and threshold the scorer returns at most
  three entries: the first three of the ranking of the corpus, where the ranking holds
  exactly the entries whose score reaches the threshold, each as often as the corpus has
  it, in non-increasing score order, the entries of one score in their corpus order.
\<close>

theorem findRelevantFaqs_top3:
  "\<exists>ranked.
     findRelevantFaqs query corpus minScore = take 3 ranked
   \<and> length (findRelevantFaqs query corpus minScore) \<le> 3
   \<and> mset ranked = mset (filter (\<lambda>f. minScore \<le> real_of_int (scoreFaq query f)) corpus)
   \<and> sorted_wrt (\<lambda>a b. scoreFaq query a \<ge> scoreFaq query b) ranked
   \<and> (\<forall>k. filter (\<lambda>f. scoreFaq query f = k) ranked =
           filter (\<lambda>f. scoreFaq query f = k)
             (filter (\<lambda>f. minScore \<le> real_of_int (scoreFaq query f)) corpus))"
proof -
  let ?rel = "filter (\<lambda>f. minScore \<le> real_of_int (scoreFaq query f)) corpus"
  let ?ranked = "sort_key (\<lambda>f. - scoreFaq query f) ?rel"
  have a: "findRelevantFaqs query corpus minScore = take 3 ?ranked"
    by (rule findRelevantFaqs_sort_key)
  have b: "length (findRelevantFaqs query corpus minScore) \<le> 3"
    by (simp add: a)
  have c: "mset ?ranked = mset ?rel"
    by (rule mset_sort)
  have "sorted (map (\<lambda>f. - scoreFaq query f) ?ranked)"
    by (rule sorted_sort_key)
  then have d: "sorted_wrt (\<lambda>a b. scoreFaq query a \<ge> scoreFaq query b) ?ranked"
    by (simp add: sorted_wrt_map)
  have e: "filter (\<lambda>f. scoreFaq query f = k) ?ranked = filter (\<lambda>f. scoreFaq query f = k) ?rel"
    for k
    using sort_key_stable [of "\<lambda>f. - scoreFaq query f" "- k" ?rel] by simp
  from a b c d e show ?thesis by blast
qed

text \<open>
  The theorem at a corpus of two entries: both reach the threshold, and the one that
  matches in its title comes first although the corpus lists it second.
\<close>

theorem findRelevantFaqs_top3_witness:
  "\<exists>ranked.
     findRelevantFaqs ''refund''
       [\<lparr>title = ''Shipping'', content = ''No refund on shipping''\<rparr>,
        \<lparr>title = ''Refund Policy'', content = ''We refund within 30 days''\<rparr>] defaultMinScore
       = take 3 ranked
   \<and> mset ranked =
       mset [\<lparr>title = ''Shipping'', content = ''No refund on shipping''\<rparr>,
             \<lparr>title = ''Refund Policy'', content = ''We refund within 30 days''\<rparr>]
   \<and> sorted_wrt (\<lambda>a b. scoreFaq ''refund'' a \<ge> scoreFaq ''refund'' b) ranked"
proof -
  let ?c = "[\<lparr>title = ''Shipping'', content = ''No refund on shipping''\<rparr>,
             \<lparr>title = ''Refund Policy'', content = ''We refund within 30 days''\<rparr>]"
  have s1: "scoreFaq ''refund'' \<lparr>title = ''Shipping'', content = ''No refund on shipping''\<rparr> = 4"
    by code_simp
  have s2: "scoreFaq ''refund'' \<lparr>title = ''Refund Policy'', content = ''We refund within 30 days''\<rparr> = 13"
    by code_simp
  have f: "filter (\<lambda>f. defaultMinScore \<le> real_of_int (scoreFaq ''refund'' f)) ?c = ?c"
    by (simp add: s1 s2 defaultMinScore_def)
  from findRelevantFaqs_top3 [of "''refund''" ?c defaultMinScore]
  show ?thesis unfolding f by blast
qed

text \<open>
  Claim C1 as it is stated fails: of four entries that all reach the threshold the fourth
  is not returned.
\<close>

theorem findRelevantFaqs_not_all_counterexample:
  "defaultMinScore \<le> real_of_int (scoreFaq ''refund'' \<lparr>title = ''Refund four'', content = ''d''\<rparr>)
   \<and> \<lparr>title = ''Refund four'', content = ''d''\<rparr> \<notin> set (findRelevantFaqs ''refund''
        [\<lparr>title = ''Refund one'', content = ''a''\<rparr>, \<lparr>title = ''Refund two'', content = ''b''\<rparr>,
         \<lparr>title = ''Refund three'', content = ''c''\<rparr>, \<lparr>title = ''Refund four'', content = ''d''\<rparr>]
        defaultMinScore)"
  by code_simp

text \<open>
  Claim C2. The score of an entry is the sum the specification describes: two for each
  query word (longer than two characters) found in the normalized title, one for each
  such word found in the normalized content and not in the title, five and two when the
  normalized query is longer than five characters and occurs in the normalized title and
  content, three and one when the lowercased query occurs in the lowercased title and
  content; and normalization is lowercasing, removing what is outside the character class,
  trimming.
\<close>

theorem scoreFaq_is_specified_sum:
  "scoreFaq query f = specScore query f \<and> normalizeText query = specNormalize query"
  by (simp add: scoreFaq_specScore normalizeText_spec)

text \<open>
  Claim C6, as amended. For the corpus of the single entry "Refund Policy" and the query
  "what is your refund policy" the score is 4, two for each of the words "refund" and
  "policy" found in the title, and the entry is returned.
\<close>

theorem refund_policy_example:
  "scoreFaq ''what is your refund policy''
     \<lparr>title = ''Refund Policy'', content = ''We refund within 30 days''\<rparr> = 4
   \<and> findRelevantFaqs ''what is your refund policy''
       [\<lparr>title = ''Refund Policy'', content = ''We refund within 30 days''\<rparr>] defaultMinScore
     = [\<lparr>title = ''Refund Policy'', content = ''We refund within 30 days''\<rparr>]"
  by code_simp

text \<open>Claim C6 as it is stated fails: the score does not reach 5.\<close>

theorem refund_policy_counterexample:
  "\<not> (5 \<le> scoreFaq ''what is your refund policy''
         \<lparr>title = ''Refund Policy'', content = ''We refund within 30 days''\<rparr>)"
  by code_simp

text \<open>
  Claim C7, as amended. When no word of the normalized query is longer than two
  characters, the loop over the query words runs over no word and adds nothing, and the
  score is the sum of the four substring checks.
\<close>

theorem short_words_no_keyword_score:
  assumes "noWordLongerThan 2 query"
  shows "queryWords query = []
    \<and> fold (wordStep (normalizeText (title f)) (normalizeText (content f))) (queryWords query) 0 = 0
    \<and> scoreFaq query f = substringScore query f"
proof -
  have q: "queryWords query = []"
    by (rule queryWords_short [OF assms])
  then have "specWords query = []"
    by (simp add: queryWords_spec)
  then have "keywordScore query f = 0"
    by (simp add: keywordScore_def)
  then have "scoreFaq query f = substringScore query f"
    by (simp add: scoreFaq_specScore specScore_def)
  with q show ?thesis by simp
qed

theorem short_words_no_keyword_score_witness:
  "noWordLongerThan 2 ''is it ok''
   \<and> queryWords ''is it ok'' = []
   \<and> scoreFaq ''is it ok'' \<lparr>title = ''Is it ok to refund'', content = ''Yes''\<rparr> = 8"
proof -
  have h: "noWordLongerThan 2 ''is it ok''"
    by code_simp
  have v: "substringScore ''is it ok'' \<lparr>title = ''Is it ok to refund'', content = ''Yes''\<rparr> = 8"
    by code_simp
  from short_words_no_keyword_score
         [OF h, of "\<lparr>title = ''Is it ok to refund'', content = ''Yes''\<rparr>"] h v
  show ?thesis by simp
qed

text \<open>
  Claim C7 as it is stated fails: the query "cat" has no word longer than three
  characters, and its one word adds two to the score of an entry with "cat" in the title.
\<close>

theorem three_letter_word_counterexample:
  "noWordLongerThan 3 ''cat''
   \<and> fold (wordStep (normalizeText ''Cat food'') (normalizeText ''Dry food'')) (queryWords ''cat'') 0 = 2
   \<and> scoreFaq ''cat'' \<lparr>title = ''Cat food'', content = ''Dry food''\<rparr>
       \<noteq> substringScore ''cat'' \<lparr>title = ''Cat food'', content = ''Dry food''\<rparr>"
  by code_simp

text \<open>
  Claim C10. For the empty query every entry scores 4, three and one from the two checks
  on the raw texts, and the scorer returns the first three entries of the corpus in corpus
  order, all of them when there are fewer: a corpus that is not empty gives a result that
  is not empty.
\<close>

theorem empty_query_returns_first_three:
  "findRelevantFaqs [] corpus defaultMinScore = take 3 corpus
   \<and> length (findRelevantFaqs [] corpus defaultMinScore) = min 3 (length corpus)
   \<and> scoreFaq [] f = 4
   \<and> fold (wordStep (normalizeText (title f)) (normalizeText (content f))) (queryWords []) 0 = 0
   \<and> \<not> length (normalizeText []) > 5
   \<and> includes_str (toLowerCase (title f)) (toLowerCase [])
   \<and> includes_str (toLowerCase (content f)) (toLowerCase [])
   \<and> (corpus \<noteq> [] \<longrightarrow> findRelevantFaqs [] corpus defaultMinScore \<noteq> [])"
proof -
  have sc: "scoreFaq [] g = 4" for g
    by (simp add: scoreFaq_def toLowerCase_def)
  have r: "findRelevantFaqs [] corpus defaultMinScore = take 3 corpus"
    by (simp add: findRelevantFaqs_sort_key sc defaultMinScore_def sort_key_const)
  show ?thesis by (simp add: r sc toLowerCase_def)
qed

theorem empty_query_returns_first_three_witness:
  "[\<lparr>title = ''Refund Policy'', content = ''We refund within 30 days''\<rparr>] \<noteq> []
   \<and> findRelevantFaqs [] [\<lparr>title = ''Refund Policy'', content = ''We refund within 30 days''\<rparr>]
        defaultMinScore
     = [\<lparr>title = ''Refund Policy'', content = ''We refund within 30 days''\<rparr>]"
  using empty_query_returns_first_three
    [of "[\<lparr>title = ''Refund Policy'', content = ''We refund within 30 days''\<rparr>]"]
  by simp

section \<open>Properties of the prompt assembly\<close>

text \<open>
  Claim C3. For a stored history whose turns all have sender \<open>user\<close> or \<open>ai\<close>, the kept
  turns are the last six when the history is not empty and its most recent turn is the
  user's, and the last five otherwise (all of them when the history is shorter). In
  particular, of seven alternating turns ending in a user turn the last six are kept, and
  of seven alternating turns ending in an assistant turn the last five.
\<close>

theorem trimHistory_keeps_last:
  assumes "\<forall>m\<in>set msgs. sender m = ''user'' \<or> sender m = ''ai''"
  shows "suffix (trimHistory msgs) msgs
    \<and> length (trimHistory msgs) =
        min (if msgs \<noteq> [] \<and> sender (last msgs) = ''user'' then 6 else 5) (length msgs)
    \<and> (map sender msgs = [''user'', ''ai'', ''user'', ''ai'', ''user'', ''ai'', ''user'']
        \<longrightarrow> trimHistory msgs = drop 1 msgs \<and> length (trimHistory msgs) = 6)
    \<and> (map sender msgs = [''ai'', ''user'', ''ai'', ''user'', ''ai'', ''user'', ''ai'']
        \<longrightarrow> trimHistory msgs = drop 2 msgs \<and> length (trimHistory msgs) = 5)"
proof -
  note t = trimHistory_valid [OF assms]
  have a: "suffix (trimHistory msgs) msgs"
    by (simp add: t slice_last_suffix)
  have b: "length (trimHistory msgs) =
        min (if msgs \<noteq> [] \<and> sender (last msgs) = ''user'' then 6 else 5) (length msgs)"
    by (simp only: t length_slice_last)
  have c: "trimHistory msgs = drop 1 msgs \<and> length (trimHistory msgs) = 6"
    if h: "map sender msgs = [''user'', ''ai'', ''user'', ''ai'', ''user'', ''ai'', ''user'']"
  proof -
    from h have "length (map sender msgs) = 7" by simp
    then have l: "length msgs = 7" by simp
    from trimHistory_by_senders [OF assms h] l show ?thesis
      by (simp add: slice_last_def)
  qed
  have d: "trimHistory msgs = drop 2 msgs \<and> length (trimHistory msgs) = 5"
    if h: "map sender msgs = [''ai'', ''user'', ''ai'', ''user'', ''ai'', ''user'', ''ai'']"
  proof -
    from h have "length (map sender msgs) = 7" by simp
    then have l: "length msgs = 7" by simp
    from trimHistory_by_senders [OF assms h] l show ?thesis
      by (simp add: slice_last_def)
  qed
  from a b c d show ?thesis by blast
qed

theorem trimHistory_keeps_last_witness:
  "trimHistory
     [\<lparr>sender = ''user'', message.content = ''q1''\<rparr>, \<lparr>sender = ''ai'', message.content = ''a1''\<rparr>,
      \<lparr>sender = ''user'', message.content = ''q2''\<rparr>, \<lparr>sender = ''ai'', message.content = ''a2''\<rparr>,
      \<lparr>sender = ''user'', message.content = ''q3''\<rparr>, \<lparr>sender = ''ai'', message.content = ''a3''\<rparr>,
      \<lparr>sender = ''user'', message.content = ''q4''\<rparr>]
   = [\<lparr>sender = ''ai'', message.content = ''a1''\<rparr>,
      \<lparr>sender = ''user'', message.content = ''q2''\<rparr>, \<lparr>sender = ''ai'', message.content = ''a2''\<rparr>,
      \<lparr>sender = ''user'', message.content = ''q3''\<rparr>, \<lparr>sender = ''ai'', message.content = ''a3''\<rparr>,
      \<lparr>sender = ''user'', message.content = ''q4''\<rparr>]
   \<and> trimHistory
     [\<lparr>sender = ''ai'', message.content = ''a0''\<rparr>,
      \<lparr>sender = ''user'', message.content = ''q1''\<rparr>, \<lparr>sender = ''ai'', message.content = ''a1''\<rparr>,
      \<lparr>sender = ''user'', message.content = ''q2''\<rparr>, \<lparr>sender = ''ai'', message.content = ''a2''\<rparr>,
      \<lparr>sender = ''user'', message.content = ''q3''\<rparr>, \<lparr>sender = ''ai'', message.content = ''a3''\<rparr>]
   = [\<lparr>sender = ''ai'', message.content = ''a1''\<rparr>,
      \<lparr>sender = ''user'', message.content = ''q2''\<rparr>, \<lparr>sender = ''ai'', message.content = ''a2''\<rparr>,
      \<lparr>sender = ''user'', message.content = ''q3''\<rparr>, \<lparr>sender = ''ai'', message.content = ''a3''\<rparr>]"
proof -
  let ?u = "[\<lparr>sender = ''user'', message.content = ''q1''\<rparr>, \<lparr>sender = ''ai'', message.content = ''a1''\<rparr>,
      \<lparr>sender = ''user'', message.content = ''q2''\<rparr>, \<lparr>sender = ''ai'', message.content = ''a2''\<rparr>,
      \<lparr>sender = ''user'', message.content = ''q3''\<rparr>, \<lparr>sender = ''ai'', message.content = ''a3''\<rparr>,
      \<lparr>sender = ''user'', message.content = ''q4''\<rparr>]"
  let ?a = "[\<lparr>sender = ''ai'', message.content = ''a0''\<rparr>,
      \<lparr>sender = ''user'', message.content = ''q1''\<rparr>, \<lparr>sender = ''ai'', message.content = ''a1''\<rparr>,
      \<lparr>sender = ''user'', message.content = ''q2''\<rparr>, \<lparr>sender = ''ai'', message.content = ''a2''\<rparr>,
      \<lparr>sender = ''user'', message.content = ''q3''\<rparr>, \<lparr>sender = ''ai'', message.content = ''a3''\<rparr>]"
  have hu: "\<forall>m\<in>set ?u. sender m = ''user'' \<or> sender m = ''ai''" by simp
  have ha: "\<forall>m\<in>set ?a. sender m = ''user'' \<or> sender m = ''ai''" by simp
  from trimHistory_keeps_last [OF hu] trimHistory_keeps_last [OF ha]
  show ?thesis by simp
qed

text \<open>
  Claim C4. The contents of the payload are, in this order: one message of role \<open>user\<close>
  holding the instruction text, the kept turns in their order, each with role \<open>user\<close> for
  sender \<open>user\<close> and role \<open>model\<close> for the assistant, and the query as the last message, of
  role \<open>user\<close>. Without a matched entry the instruction text is the fixed text alone; with
  matched entries it is followed by the heading and by one "Q: title, A: content" entry
  for each, with the \<open>---\<close> separator between two entries.
\<close>

theorem payload_contents_order:
  "contents (buildPayload message (faqContextForGemini relevantFaqs) (map toGemini trimmed)) =
     [\<lparr>role = ''user'',
       parts = [\<lparr>part_text = systemInstruction (faqContextForGemini relevantFaqs)\<rparr>]\<rparr>]
     @ map (\<lambda>m. \<lparr>role = (if sender m = ''user'' then ''user'' else ''model''),
                  parts = [\<lparr>part_text = message.content m\<rparr>]\<rparr>) trimmed
     @ [\<lparr>role = ''user'', parts = [\<lparr>part_text = message\<rparr>]\<rparr>]
   \<and> role (toGemini \<lparr>sender = ''user'', message.content = c\<rparr>) = ''user''
   \<and> role (toGemini \<lparr>sender = ''ai'', message.content = c\<rparr>) = ''model''
   \<and> systemInstruction (faqContextForGemini []) = systemInstructionHead
   \<and> systemInstruction (faqContextForGemini (f # fs)) =
       systemInstructionHead @ ''**Relevant FAQs:**\<newline>''
       @ (''Q: '' @ title f @ ''\<newline>A: '' @ content f)
       @ concat (map (\<lambda>g. ''\<newline>\<newline>---\<newline>\<newline>'' @ (''Q: '' @ title g @ ''\<newline>A: '' @ content g)) fs)
       @ ''\<newline>\<newline>''"
proof -
  have a: "contents (buildPayload message (faqContextForGemini relevantFaqs) (map toGemini trimmed)) =
     [\<lparr>role = ''user'',
       parts = [\<lparr>part_text = systemInstruction (faqContextForGemini relevantFaqs)\<rparr>]\<rparr>]
     @ map (\<lambda>m. \<lparr>role = (if sender m = ''user'' then ''user'' else ''model''),
                  parts = [\<lparr>part_text = message.content m\<rparr>]\<rparr>) trimmed
     @ [\<lparr>role = ''user'', parts = [\<lparr>part_text = message\<rparr>]\<rparr>]"
    by (simp add: buildPayload_def toGemini_def)
  have b: "role (toGemini \<lparr>sender = ''user'', message.content = c\<rparr>) = ''user''"
    and c: "role (toGemini \<lparr>sender = ''ai'', message.content = c\<rparr>) = ''model''"
    by (simp_all add: toGemini_def)
  have d: "systemInstruction (faqContextForGemini []) = systemInstructionHead"
    by (simp add: systemInstruction_def faqContext_Nil)
  have e: "systemInstruction (faqContextForGemini (f # fs)) =
       systemInstructionHead @ ''**Relevant FAQs:**\<newline>''
       @ (''Q: '' @ title f @ ''\<newline>A: '' @ content f)
       @ concat (map (\<lambda>g. ''\<newline>\<newline>---\<newline>\<newline>'' @ (''Q: '' @ title g @ ''\<newline>A: '' @ content g)) fs)
       @ ''\<newline>\<newline>''"
    using faqContext_nonempty [of f fs]
    by (simp add: systemInstruction_def faqContext_Cons formatFaq_def faqSeparator_def)
  from a b c d e show ?thesis by (intro conjI)
qed

section \<open>Properties of the routes\<close>

text \<open>
  Claim C5, where the code departs from it. A response whose list of candidates holds
  \<open>null\<close> passes the guard up to the read of \<open>candidates[0].content\<close>, which throws; a
  response whose first part has no \<open>text\<close> passes the whole guard and gives \<open>undefined\<close>,
  which is no string.
\<close>

theorem extractReply_null_candidate:
  "extractReply pos (JObj [(''candidates'', JArr [JNull])]) = Inl TypeError
   \<and> extractReply pos
       (JObj [(''candidates'', JArr [JObj [(''content'', JObj [(''parts'', JArr [JObj []])])]])])
     = Inr JUndefined"
  by (simp add: extractReply_def)

text \<open>
  Claim C8. When the route answers with a reply, the conversation of the user is the one
  stored before, or a new one with no turns when there was none, with two turns appended:
  the user's turn holding the message, then the assistant's turn holding the reply. The
  conversations of the other users and the FAQ entries are unchanged.
\<close>

theorem postChat_appends_two_turns:
  assumes "postChat ev st uidField messageField = (st', Replied (JStr reply))"
  shows "\<exists>uid message. uidField = Some uid \<and> messageField = Some message
     \<and> (chatStore st uid = None \<longrightarrow>
          chatStore st' uid = Some \<lparr>userId = uid, messages =
            [\<lparr>sender = ''user'', message.content = message\<rparr>,
             \<lparr>sender = ''ai'', message.content = reply\<rparr>]\<rparr>)
     \<and> (\<forall>c. chatStore st uid = Some c \<longrightarrow>
          chatStore st' uid = Some (c\<lparr>messages := messages c
            @ [\<lparr>sender = ''user'', message.content = message\<rparr>,
               \<lparr>sender = ''ai'', message.content = reply\<rparr>]\<rparr>))
     \<and> (\<forall>u. u \<noteq> uid \<longrightarrow> chatStore st' u = chatStore st u)
     \<and> faqStore st' = faqStore st"
proof -
  from postChat_Replied [OF assms] obtain uid message where
    f: "uidField = Some uid" "messageField = Some message"
    and x: "chatExchange ev st uid message = Inr (st', JStr reply)"
    by blast
  from chatExchange_success [OF x] obtain kept where
    t: "storedContent ev (JStr reply) = Inr kept"
    and s: "st' = st\<lparr>chatStore := (chatStore st)(uid \<mapsto>
         (case chatStore st uid of None \<Rightarrow> \<lparr>userId = uid, messages = []\<rparr> | Some c \<Rightarrow> c)
           \<lparr>messages :=
              (case chatStore st uid of None \<Rightarrow> [] | Some c \<Rightarrow> messages c)
              @ [\<lparr>sender = ''user'', message.content = message\<rparr>,
                 \<lparr>sender = ''ai'', message.content = kept\<rparr>]\<rparr>)\<rparr>"
    by blast
  from t have "kept = reply" by (rule storedContent_JStr)
  with s f show ?thesis by simp
qed

theorem postChat_appends_two_turns_witness:
  "(\<exists>st1. postChat
      \<lparr>faqFindOk = True, chatFindOk = True, chatSaveOk = True,
       upstream = (\<lambda>p. Some (JObj [(''candidates'',
          JArr [JObj [(''content'', JObj [(''parts'', JArr [JObj [(''text'', JStr ''Hello'')]])])]])])),
       strPositive = (\<lambda>s. False), castString = (\<lambda>v. None)\<rparr>
      \<lparr>faqStore = [], chatStore = (\<lambda>u. None)\<rparr> (Some ''u1'') (Some ''hi'')
      = (st1, Replied (JStr ''Hello''))
    \<and> chatStore st1 ''u1'' = Some \<lparr>userId = ''u1'', messages =
            [\<lparr>sender = ''user'', message.content = ''hi''\<rparr>,
             \<lparr>sender = ''ai'', message.content = ''Hello''\<rparr>]\<rparr>)
   \<and> (\<exists>st2. postChat
      \<lparr>faqFindOk = True, chatFindOk = True, chatSaveOk = True,
       upstream = (\<lambda>p. Some (JObj [(''candidates'',
          JArr [JObj [(''content'', JObj [(''parts'', JArr [JObj [(''text'', JStr ''Bye'')]])])]])])),
       strPositive = (\<lambda>s. False), castString = (\<lambda>v. None)\<rparr>
      \<lparr>faqStore = [],
       chatStore = [''u1'' \<mapsto> \<lparr>userId = ''u1'', messages =
            [\<lparr>sender = ''user'', message.content = ''hi''\<rparr>,
             \<lparr>sender = ''ai'', message.content = ''Hello''\<rparr>]\<rparr>]\<rparr>
      (Some ''u1'') (Some ''bye'')
      = (st2, Replied (JStr ''Bye''))
    \<and> chatStore st2 ''u1'' = Some \<lparr>userId = ''u1'', messages =
            [\<lparr>sender = ''user'', message.content = ''hi''\<rparr>,
             \<lparr>sender = ''ai'', message.content = ''Hello''\<rparr>,
             \<lparr>sender = ''user'', message.content = ''bye''\<rparr>,
             \<lparr>sender = ''ai'', message.content = ''Bye''\<rparr>]\<rparr>)"
proof -
  let ?ev = "\<lparr>faqFindOk = True, chatFindOk = True, chatSaveOk = True,
       upstream = (\<lambda>p. Some (JObj [(''candidates'',
          JArr [JObj [(''content'', JObj [(''parts'', JArr [JObj [(''text'', JStr ''Hello'')]])])]])])),
       strPositive = (\<lambda>s. False), castString = (\<lambda>v. None)\<rparr>"
  let ?st = "\<lparr>faqStore = [], chatStore = (\<lambda>u. None)\<rparr>"
  let ?ev' = "\<lparr>faqFindOk = True, chatFindOk = True, chatSaveOk = True,
       upstream = (\<lambda>p. Some (JObj [(''candidates'',
          JArr [JObj [(''content'', JObj [(''parts'', JArr [JObj [(''text'', JStr ''Bye'')]])])]])])),
       strPositive = (\<lambda>s. False), castString = (\<lambda>v. None)\<rparr>"
  let ?st' = "\<lparr>faqStore = [],
       chatStore = [''u1'' \<mapsto> \<lparr>userId = ''u1'', messages =
            [\<lparr>sender = ''user'', message.content = ''hi''\<rparr>,
             \<lparr>sender = ''ai'', message.content = ''Hello''\<rparr>]\<rparr>]\<rparr>"
  obtain st1 where
    h1: "postChat ?ev ?st (Some ''u1'') (Some ''hi'') = (st1, Replied (JStr ''Hello''))"
    by (simp add: postChat_def chatExchange_def extractReply_def storedContent_def Let_def)
  obtain st2 where
    h2: "postChat ?ev' ?st' (Some ''u1'') (Some ''bye'') = (st2, Replied (JStr ''Bye''))"
    by (simp add: postChat_def chatExchange_def extractReply_def storedContent_def Let_def)
  from postChat_appends_two_turns [OF h1] h1
  have a: "\<exists>st1. postChat ?ev ?st (Some ''u1'') (Some ''hi'') = (st1, Replied (JStr ''Hello''))
    \<and> chatStore st1 ''u1'' = Some \<lparr>userId = ''u1'', messages =
            [\<lparr>sender = ''user'', message.content = ''hi''\<rparr>,
             \<lparr>sender = ''ai'', message.content = ''Hello''\<rparr>]\<rparr>"
    by auto
  from postChat_appends_two_turns [OF h2] h2
  have b: "\<exists>st2. postChat ?ev' ?st' (Some ''u1'') (Some ''bye'') = (st2, Replied (JStr ''Bye''))
    \<and> chatStore st2 ''u1'' = Some \<lparr>userId = ''u1'', messages =
            [\<lparr>sender = ''user'', message.content = ''hi''\<rparr>,
             \<lparr>sender = ''ai'', message.content = ''Hello''\<rparr>,
             \<lparr>sender = ''user'', message.content = ''bye''\<rparr>,
             \<lparr>sender = ''ai'', message.content = ''Bye''\<rparr>]\<rparr>"
    by auto
  from a b show ?thesis by (rule conjI)
qed

text \<open>
  Claim C9. When a file of a text type is uploaded and stored, the content of the stored
  entry is the decoding of the file's bytes as UTF-8. In particular a plain-text file with
  the bytes of "Hello world", which decode to themselves, is stored with exactly the
  content "Hello world".
\<close>

theorem upload_text_roundtrip:
  "(uploadFileFaq ev st titleField (Some file) = (st', Created stored)
      \<and> prefix ''text/'' (mimetype file)
    \<longrightarrow> content stored = toString_utf8 ev (buffer file)
      \<and> titleField = Some (title stored)
      \<and> faqStore st' = faqStore st @ [stored]
      \<and> chatStore st' = chatStore st)
   \<and> (mimetype file = ''text/plain'' \<and> buffer file = ''Hello world''
      \<and> toString_utf8 ev ''Hello world'' = ''Hello world'' \<and> t \<noteq> [] \<and> faqSaveOk ev
    \<longrightarrow> uploadFileFaq ev st (Some t) (Some file) =
          (st\<lparr>faqStore := faqStore st @ [\<lparr>title = t, content = ''Hello world''\<rparr>]\<rparr>,
           Created \<lparr>title = t, content = ''Hello world''\<rparr>))"
proof -
  have m: "extractContent ev file = toString_utf8 ev (buffer file)"
    if "prefix ''text/'' (mimetype file)"
  proof -
    from that have "mimetype file \<noteq> ''application/pdf''" by auto
    with that show ?thesis by (simp add: extractContent_def)
  qed
  have a: "content stored = toString_utf8 ev (buffer file)
      \<and> titleField = Some (title stored)
      \<and> faqStore st' = faqStore st @ [stored]
      \<and> chatStore st' = chatStore st"
    if u: "uploadFileFaq ev st titleField (Some file) = (st', Created stored)"
      and p: "prefix ''text/'' (mimetype file)"
    using u m [OF p]
    by (auto simp: uploadFileFaq_def Let_def split: option.splits if_splits)
  have b: "uploadFileFaq ev st (Some t) (Some file) =
          (st\<lparr>faqStore := faqStore st @ [\<lparr>title = t, content = ''Hello world''\<rparr>]\<rparr>,
           Created \<lparr>title = t, content = ''Hello world''\<rparr>)"
    if "mimetype file = ''text/plain''" "buffer file = ''Hello world''"
      "toString_utf8 ev ''Hello world'' = ''Hello world''" "t \<noteq> []" "faqSaveOk ev"
  proof -
    from that(1) have "prefix ''text/'' (mimetype file)" by simp
    from m [OF this] that show ?thesis
      by (simp add: uploadFileFaq_def Let_def)
  qed
  from a b show ?thesis by blast
qed

theorem upload_text_roundtrip_witness:
  "uploadFileFaq \<lparr>pdf = (\<lambda>b. Inl ''not a PDF''), toString_utf8 = (\<lambda>b. b), faqSaveOk = True\<rparr>
     \<lparr>faqStore = [], chatStore = (\<lambda>u. None)\<rparr> (Some ''Greeting'')
     (Some \<lparr>originalname = ''hello.txt'', mimetype = ''text/plain'', buffer = ''Hello world'',
            file_size = 11\<rparr>)
   = (\<lparr>faqStore = [\<lparr>title = ''Greeting'', content = ''Hello world''\<rparr>], chatStore = (\<lambda>u. None)\<rparr>,
      Created \<lparr>title = ''Greeting'', content = ''Hello world''\<rparr>)
   \<and> content \<lparr>title = ''Greeting'', content = ''Hello world''\<rparr> = ''Hello world''"
proof -
  let ?ev = "\<lparr>pdf = (\<lambda>b. Inl ''not a PDF''), toString_utf8 = (\<lambda>b. b), faqSaveOk = True\<rparr>"
  let ?st = "\<lparr>faqStore = [], chatStore = (\<lambda>u. None)\<rparr>"
  let ?file = "\<lparr>originalname = ''hello.txt'', mimetype = ''text/plain'',
                 buffer = ''Hello world'', file_size = 11\<rparr>"
  let ?st' = "\<lparr>faqStore = [\<lparr>title = ''Greeting'', content = ''Hello world''\<rparr>],
                chatStore = (\<lambda>u. None)\<rparr>"
  let ?faq = "\<lparr>title = ''Greeting'', content = ''Hello world''\<rparr>"
  from upload_text_roundtrip [of ?ev ?st "Some ''Greeting''" ?file ?st' ?faq "''Greeting''"]
  have h: "uploadFileFaq ?ev ?st (Some ''Greeting'') (Some ?file) = (?st', Created ?faq)"
    by simp
  with upload_text_roundtrip [of ?ev ?st "Some ''Greeting''" ?file ?st' ?faq "''Greeting''"]
  have "content ?faq = toString_utf8 ?ev (buffer ?file)"
    by simp
  with h show ?thesis by simp
qed

end
